theory Spec2Isabelle
  imports Main "HOL-Library.Sublist"
begin

section \<open>Strings that may carry deferred values\<close>

text \<open>
  The construct library hands deferred values around inside ordinary strings: a string is
  plain text in which markers of values known only to the templating engine may stand.
  A string is modelled as the sequence of its pieces, in order; a template literal
  \<^verbatim>\<open>`${a}/${b}`\<close> is the concatenation \<open>a @ lit ''/'' @ b\<close>.
\<close>

datatype token = Ref string | GetAtt string string | Pseudo string

datatype piece = Text string | Tok token

type_synonym cdk_string = "piece list"

definition lit :: "string \<Rightarrow> cdk_string" where
  "lit s = [Text s]"

fun is_marker :: "piece \<Rightarrow> bool" where
  "is_marker (Text t) = False"
| "is_marker (Tok k) = True"

text \<open>\<^verbatim>\<open>cdk.Token.isUnresolved\<close>: the string holds a marker somewhere.\<close>

definition Token_isUnresolved :: "cdk_string \<Rightarrow> bool" where
  "Token_isUnresolved s = list_ex is_marker s"

text \<open>The characters of a string without markers; a string with a marker has none yet.\<close>

fun plain_text :: "cdk_string \<Rightarrow> string option" where
  "plain_text [] = Some []"
| "plain_text (Text t # ps) = map_option ((@) t) (plain_text ps)"
| "plain_text (Tok k # ps) = None"

text \<open>
  \<^verbatim>\<open>Array.prototype.includes\<close> on an array of string literals: strict equality of
  strings. A string with a marker equals none of the literals.
\<close>

definition Array_includes :: "string list \<Rightarrow> cdk_string \<Rightarrow> bool" where
  "Array_includes xs s = (case plain_text s of None \<Rightarrow> False | Some t \<Rightarrow> t \<in> set xs)"

text \<open>The pseudo parameters \<^verbatim>\<open>cdk.Aws.PARTITION\<close>, \<^verbatim>\<open>REGION\<close>, \<^verbatim>\<open>ACCOUNT_ID\<close>.\<close>

definition Aws_PARTITION :: cdk_string where
  "Aws_PARTITION = [Tok (Pseudo ''AWS::Partition'')]"

definition Aws_REGION :: cdk_string where
  "Aws_REGION = [Tok (Pseudo ''AWS::Region'')]"

definition Aws_ACCOUNT_ID :: cdk_string where
  "Aws_ACCOUNT_ID = [Tok (Pseudo ''AWS::AccountId'')]"

section \<open>The data of the construct\<close>

text \<open>
  What can be thrown: an \<^verbatim>\<open>Error\<close> the construct itself throws, with its message; a
  \<^verbatim>\<open>TypeError\<close> for reading a field of an unset private field; an error thrown inside a
  call of the construct library, with the library's message.
\<close>

datatype Error = Error cdk_string | TypeError | LibraryError string

record IStream =
  streamName :: cdk_string

record IBucket =
  bucketName :: cdk_string

record FlinkApplicationProps =
  inputStream :: IStream
  outputBucket :: IBucket
  logsRetentionDays :: int
  logLevel :: cdk_string
  metricsLevel :: cdk_string
  codeBucketArn :: cdk_string
  codeFileKey :: cdk_string
  enableSnapshots :: cdk_string
  enableAutoScaling :: cdk_string
  subnetIds :: "cdk_string list option"
  securityGroupIds :: "cdk_string list option"

datatype RemovalPolicy = DESTROY | RETAIN | SNAPSHOT

record PolicyStatement =
  resources :: "cdk_string list"
  actions :: "string list"

text \<open>
  What a role holds: statements of the policies attached to it, and the grants it was
  handed by \<^verbatim>\<open>grantRead\<close> of a stream and \<^verbatim>\<open>grantReadWrite\<close> of a bucket. The
  contents of the latter two belong to the stream and the bucket.
\<close>

datatype grant =
    Statement PolicyStatement
  | StreamRead cdk_string
  | BucketReadWrite cdk_string

text \<open>\<^verbatim>\<open>cdk.Fn.conditionEquals\<close> and \<^verbatim>\<open>cdk.Fn.conditionIf\<close> build expressions; a
  boolean field of a resource takes a plain boolean or such an expression.\<close>

datatype condition_expression = Fn_conditionEquals cdk_string cdk_string

datatype resolvable_bool = Plain bool | Fn_conditionIf string bool bool

record S3ContentLocation =
  bucketArn :: cdk_string
  fileKey :: cdk_string

record CodeContent =
  s3ContentLocation :: S3ContentLocation

record ApplicationCodeConfiguration =
  codeContent :: CodeContent
  codeContentType :: string

record PropertyGroup =
  propertyGroupId :: string
  propertyMap :: "(string \<times> cdk_string) list"

record EnvironmentProperties =
  propertyGroups :: "PropertyGroup list"

record MonitoringConfiguration =
  monitoring_configurationType :: string
  monitoring_logLevel :: cdk_string
  monitoring_metricsLevel :: cdk_string

record ParallelismConfiguration =
  parallelism_configurationType :: string
  autoScalingEnabled :: resolvable_bool

record CheckpointConfiguration =
  checkpoint_configurationType :: string

record FlinkApplicationConfiguration =
  monitoringConfiguration :: MonitoringConfiguration
  parallelismConfiguration :: ParallelismConfiguration
  checkpointConfiguration :: CheckpointConfiguration

record ApplicationSnapshotConfiguration =
  snapshotsEnabled :: resolvable_bool

record ApplicationConfiguration =
  applicationCodeConfiguration :: ApplicationCodeConfiguration
  environmentProperties :: EnvironmentProperties
  flinkApplicationConfiguration :: FlinkApplicationConfiguration
  applicationSnapshotConfiguration :: ApplicationSnapshotConfiguration

record CfnApplicationV2Props =
  runtimeEnvironment :: string
  serviceExecutionRole :: cdk_string
  applicationConfiguration :: ApplicationConfiguration

record FunctionProps =
  runtime :: string
  handler :: string
  role :: string
  code :: string
  timeout :: nat

datatype property_value = StringValue cdk_string | ListValue "cdk_string list"

text \<open>
  The constructs defined under the application construct, each with the properties it is
  given. A construct is referred to by its id in that scope.
\<close>

datatype resource =
    logs_LogGroup int RemovalPolicy
  | logs_LogStream string RemovalPolicy
  | iam_Role string "string list" "grant list"
  | iam_Policy "PolicyStatement list" "string list" "(string \<times> string) list"
  | cdk_CfnCondition condition_expression
  | analytics_CfnApplicationV2 CfnApplicationV2Props
  | analytics_CfnApplicationCloudWatchLoggingOptionV2 cdk_string cdk_string
  | ExecutionRole string "PolicyStatement list"
  | lambda_Function FunctionProps
  | cdk_CustomResource cdk_string "(string \<times> property_value) list" string

text \<open>
  The object under construction: its two private fields (unset until the constructor
  assigns them) and the child constructs, in the order of their definition.
\<close>

record FlinkApplication =
  Application :: "string option"
  LogGroup :: "string option"
  children :: "(string \<times> resource) list"

section \<open>Operations of the construct library\<close>

text \<open>
  The library is not part of the construct: which of its calls throw, and with what
  message, is a parameter. A call is named by what is called and with what: the base
  constructor \<^verbatim>\<open>super(scope, id)\<close> (the scope as the ids already defined in it), the
  constructor of a child construct \<^verbatim>\<open>new X(this, id, props)\<close>, and the methods that
  change a construct.
\<close>

datatype library_call =
    Construct_super "string list" string
  | Construct_new string resource
  | Policy_attachToRole string string
  | Stream_grantRead IStream string
  | Bucket_grantReadWrite IBucket string
  | Code_fromAsset string

type_synonym library = "library_call \<Rightarrow> string option"

text \<open>
  A step returns \<open>Inr\<close> with its result, which holds the object as it has become, or
  \<open>Inl\<close> with the error thrown and the object as it stood at the throw. \<open>andThen\<close> runs
  the next step unless the first has thrown.
\<close>

type_synonym 'a result = "Error \<times> FlinkApplication + 'a"

definition andThen :: "'a result \<Rightarrow> ('a \<Rightarrow> 'b result) \<Rightarrow> 'b result" where
  "andThen r f = (case r of Inl err \<Rightarrow> Inl err | Inr v \<Rightarrow> f v)"

text \<open>A call of the library on the object \<open>this\<close>: it throws and leaves the object as it
  is, or returns and leaves it as \<open>this'\<close>.\<close>

definition calling ::
  "library \<Rightarrow> library_call \<Rightarrow> FlinkApplication \<Rightarrow> FlinkApplication \<Rightarrow> FlinkApplication result"
  where
  "calling lib c this this' =
     (case lib c of Some msg \<Rightarrow> Inl (LibraryError msg, this) | None \<Rightarrow> Inr this')"

definition addChild :: "string \<Rightarrow> resource \<Rightarrow> FlinkApplication \<Rightarrow> FlinkApplication" where
  "addChild n r this = this\<lparr>children := children this @ [(n, r)]\<rparr>"

text \<open>\<^verbatim>\<open>new X(this, id, props)\<close>.\<close>

definition new_construct ::
  "library \<Rightarrow> string \<Rightarrow> resource \<Rightarrow> FlinkApplication \<Rightarrow> FlinkApplication result" where
  "new_construct lib n r this = calling lib (Construct_new n r) this (addChild n r this)"

definition updateChild ::
  "string \<Rightarrow> (resource \<Rightarrow> resource) \<Rightarrow> FlinkApplication \<Rightarrow> FlinkApplication" where
  "updateChild n f this =
     this\<lparr>children := map (\<lambda>(k, r). if k = n then (k, f r) else (k, r)) (children this)\<rparr>"

fun attachInlinePolicy :: "string \<Rightarrow> resource \<Rightarrow> resource" where
  "attachInlinePolicy p (iam_Role svc ps gs) = iam_Role svc (ps @ [p]) gs"
| "attachInlinePolicy p r = r"

fun addRole :: "string \<Rightarrow> resource \<Rightarrow> resource" where
  "addRole r (iam_Policy sts rs md) = iam_Policy sts (rs @ [r]) md"
| "addRole r x = x"

fun addGrant :: "grant \<Rightarrow> resource \<Rightarrow> resource" where
  "addGrant g (iam_Role svc ps gs) = iam_Role svc ps (gs @ [g])"
| "addGrant g r = r"

text \<open>The metadata \<^verbatim>\<open>cfn_nag.rules_to_suppress\<close> of a policy: pairs of id and reason.\<close>

fun rules_to_suppress :: "(string \<times> string) list \<Rightarrow> resource \<Rightarrow> resource" where
  "rules_to_suppress rules (iam_Policy sts rs md) = iam_Policy sts rs rules"
| "rules_to_suppress rules r = r"

text \<open>\<^verbatim>\<open>policy.attachToRole(role)\<close>: the policy lists the role, the role the policy.\<close>

definition attachToRole ::
  "library \<Rightarrow> string \<Rightarrow> string \<Rightarrow> FlinkApplication \<Rightarrow> FlinkApplication result" where
  "attachToRole lib p r this =
     calling lib (Policy_attachToRole p r) this
       (updateChild r (attachInlinePolicy p) (updateChild p (addRole r) this))"

text \<open>\<^verbatim>\<open>stream.grantRead(role)\<close> and \<^verbatim>\<open>bucket.grantReadWrite(role)\<close>: the role is
  handed the resource's own grant.\<close>

definition grantRead ::
  "library \<Rightarrow> IStream \<Rightarrow> string \<Rightarrow> FlinkApplication \<Rightarrow> FlinkApplication result" where
  "grantRead lib s r this =
     calling lib (Stream_grantRead s r) this
       (updateChild r (addGrant (StreamRead (streamName s))) this)"

definition grantReadWrite ::
  "library \<Rightarrow> IBucket \<Rightarrow> string \<Rightarrow> FlinkApplication \<Rightarrow> FlinkApplication result" where
  "grantReadWrite lib b r this =
     calling lib (Bucket_grantReadWrite b r) this
       (updateChild r (addGrant (BucketReadWrite (bucketName b))) this)"

text \<open>\<^verbatim>\<open>lambda.Code.fromAsset(path)\<close>: the code at a path, when the library accepts it.\<close>

definition fromAsset ::
  "library \<Rightarrow> string \<Rightarrow> FlinkApplication \<Rightarrow> FlinkApplication result" where
  "fromAsset lib path this = calling lib (Code_fromAsset path) this this"

text \<open>Attributes of a defined construct, as the markers the library returns for them.\<close>

definition ref :: "string \<Rightarrow> cdk_string" where
  "ref n = [Tok (Ref n)]"

definition logGroupName :: "string \<Rightarrow> cdk_string" where
  "logGroupName n = [Tok (Ref n)]"

definition logGroupArn :: "string \<Rightarrow> cdk_string" where
  "logGroupArn n = [Tok (GetAtt n ''Arn'')]"

definition logStreamName :: "string \<Rightarrow> cdk_string" where
  "logStreamName n = [Tok (Ref n)]"

definition roleArn :: "string \<Rightarrow> cdk_string" where
  "roleArn n = [Tok (GetAtt n ''Arn'')]"

definition functionArn :: "string \<Rightarrow> cdk_string" where
  "functionArn n = [Tok (GetAtt n ''Arn'')]"

definition logicalId :: "string \<Rightarrow> string" where
  "logicalId n = n"

text \<open>The operator \<^verbatim>\<open>??\<close>.\<close>

fun nullish :: "'a option \<Rightarrow> 'a \<Rightarrow> 'a" where
  "nullish None d = d"
| "nullish (Some v) d = v"

section \<open>The construct\<close>

definition AllowedLogLevels :: "string list" where
  "AllowedLogLevels = [''DEBUG'', ''ERROR'', ''INFO'', ''WARN'']"

definition AllowedMetricLevels :: "string list" where
  "AllowedMetricLevels = [''APPLICATION'', ''OPERATOR'', ''PARALLELISM'', ''TASK'']"

text \<open>The getters; reading a field of an unset private field is a \<^verbatim>\<open>TypeError\<close>.\<close>

definition ApplicationName :: "FlinkApplication \<Rightarrow> cdk_string option" where
  "ApplicationName this = map_option ref (Application this)"

definition LogGroupName :: "FlinkApplication \<Rightarrow> cdk_string option" where
  "LogGroupName this = map_option logGroupName (LogGroup this)"

definition createRole ::
  "library \<Rightarrow> cdk_string \<Rightarrow> cdk_string \<Rightarrow> FlinkApplication
     \<Rightarrow> (string \<times> FlinkApplication) result" where
  "createRole lib bucketArn' fileKey' this0 =
    (let role' = ''AppRole'' in
     andThen (new_construct lib role' (iam_Role ''kinesisanalytics.amazonaws.com'' [] []) this0)
      (\<lambda>this1.
     let s3Policy = ''CodePolicy'' in
     andThen (new_construct lib s3Policy
           (iam_Policy
             [\<lparr>resources = [bucketArn' @ lit ''/'' @ fileKey'],
               actions = [''s3:GetObjectVersion'', ''s3:GetObject'']\<rparr>] [] []) this1)
      (\<lambda>this2.
     andThen (attachToRole lib s3Policy role' this2)
      (\<lambda>this3.
     case LogGroup this3 of
       None \<Rightarrow> Inl (TypeError, this3)
     | Some lg \<Rightarrow>
      (let logsPolicy = ''LogsPolicy'' in
       andThen (new_construct lib logsPolicy
             (iam_Policy
               [\<lparr>resources = [lit ''arn:'' @ Aws_PARTITION @ lit '':logs:'' @ Aws_REGION
                     @ lit '':'' @ Aws_ACCOUNT_ID @ lit '':log-group:*''],
                 actions = [''logs:DescribeLogGroups'']\<rparr>,
                \<lparr>resources = [logGroupArn lg],
                 actions = [''logs:DescribeLogStreams'', ''logs:PutLogEvents'']\<rparr>] [] [])
             this3)
        (\<lambda>this4.
       andThen (attachToRole lib logsPolicy role' this4)
        (\<lambda>this5.
       let vpcPolicy = ''VpcPolicy'' in
       andThen (new_construct lib vpcPolicy
             (iam_Policy
               [\<lparr>resources = [lit ''*''],
                 actions = [''ec2:CreateNetworkInterface'',
                            ''ec2:DescribeNetworkInterfaces'',
                            ''ec2:DescribeVpcs'',
                            ''ec2:DeleteNetworkInterface'',
                            ''ec2:DescribeDhcpOptions'',
                            ''ec2:DescribeSubnets'',
                            ''ec2:DescribeSecurityGroups'']\<rparr>,
                \<lparr>resources = [lit ''arn:'' @ Aws_PARTITION @ lit '':ec2:'' @ Aws_REGION
                     @ lit '':'' @ Aws_ACCOUNT_ID @ lit '':network-interface/*''],
                 actions = [''ec2:CreateNetworkInterfacePermission'']\<rparr>] [] []) this5)
        (\<lambda>this6.
       andThen (attachToRole lib vpcPolicy role' this6)
        (\<lambda>this7.
       let this8 = updateChild vpcPolicy
             (rules_to_suppress
               [(''W12'', ''Actions do not support resource level permissions'')]) this7
       in Inr (role', this8))))))))))"

definition configureLogging ::
  "library \<Rightarrow> cdk_string \<Rightarrow> FlinkApplication \<Rightarrow> FlinkApplication result" where
  "configureLogging lib logStreamName' this =
    (case LogGroupName this of
       None \<Rightarrow> Inl (TypeError, this)
     | Some lgn \<Rightarrow>
      (let logStreamArn = lit ''arn:'' @ Aws_PARTITION @ lit '':logs:'' @ Aws_REGION @ lit '':''
             @ Aws_ACCOUNT_ID @ lit '':log-group:'' @ lgn @ lit '':log-stream:'' @ logStreamName'
       in case ApplicationName this of
            None \<Rightarrow> Inl (TypeError, this)
          | Some app \<Rightarrow>
              new_construct lib ''Logging''
                (analytics_CfnApplicationCloudWatchLoggingOptionV2 app logStreamArn) this))"

text \<open>Modelled from the spec: the class \<^verbatim>\<open>ExecutionRole\<close> of
  \<^verbatim>\<open>lib/lambda-role-cloudwatch\<close>, which is not among the sources. The construct it
  defines is taken to carry the inline policy it is given, under the name it is given:
  the role of the callback function is granted the actions of that document.
\<close>

definition ExecutionRole_new ::
  "library \<Rightarrow> string \<Rightarrow> string \<Rightarrow> PolicyStatement list \<Rightarrow> FlinkApplication
     \<Rightarrow> FlinkApplication result" where
  "ExecutionRole_new lib n inlinePolicyName inlinePolicyDocument this =
     new_construct lib n (ExecutionRole inlinePolicyName inlinePolicyDocument) this"

definition createCustomResource ::
  "library \<Rightarrow> cdk_string list option \<Rightarrow> cdk_string list option \<Rightarrow> FlinkApplication
     \<Rightarrow> FlinkApplication result" where
  "createCustomResource lib subnets securityGroups this0 =
    (case ApplicationName this0 of
       None \<Rightarrow> Inl (TypeError, this0)
     | Some app \<Rightarrow>
      (let vpcConfigDocument =
             [\<lparr>resources = [lit ''arn:'' @ Aws_PARTITION @ lit '':kinesisanalytics:'' @ Aws_REGION
                   @ lit '':'' @ Aws_ACCOUNT_ID @ lit '':application/'' @ app],
               actions = [''kinesisanalytics:AddApplicationVpcConfiguration'',
                          ''kinesisanalytics:DeleteApplicationVpcConfiguration'',
                          ''kinesisanalytics:DescribeApplication'']\<rparr>];
           customResouceRole = ''CustomResourceRole''
       in
       andThen (ExecutionRole_new lib customResouceRole ''VpcConfigPolicy'' vpcConfigDocument this0)
        (\<lambda>this1.
       let customResourceFunction = ''CustomResource'' in
       andThen (fromAsset lib ''lambda/kda-vpc-config'' this1)
        (\<lambda>this1.
       andThen (new_construct lib customResourceFunction
             (lambda_Function
               \<lparr>runtime = ''python3.8'',
                handler = ''lambda_function.handler'',
                role = customResouceRole,
                code = ''lambda/kda-vpc-config'',
                timeout = 30\<rparr>) this1)
        (\<lambda>this2.
       case ApplicationName this2 of
         None \<Rightarrow> Inl (TypeError, this2)
       | Some app' \<Rightarrow>
           new_construct lib ''VpcConfiguration''
             (cdk_CustomResource (functionArn customResourceFunction)
                [(''ApplicationName'', StringValue app'),
                 (''SubnetIds'', ListValue (nullish subnets [])),
                 (''SecurityGroupIds'', ListValue (nullish securityGroups []))]
                ''Custom::VpcConfiguration'') this2)))))"

text \<open>
  The constructor, given the library, the scope (the ids already defined in it) and the
  id of the construct.
\<close>

definition FlinkApplication_constructor ::
  "library \<Rightarrow> string list \<Rightarrow> string \<Rightarrow> FlinkApplicationProps \<Rightarrow> FlinkApplication result" where
  "FlinkApplication_constructor lib scope id' props =
    (let new_this = \<lparr>Application = None, LogGroup = None, children = []\<rparr> in
     andThen (calling lib (Construct_super scope id') new_this new_this)
      (\<lambda>this0.
     if \<not> Token_isUnresolved (logLevel props) \<and> \<not> Array_includes AllowedLogLevels (logLevel props)
     then Inl (Error (lit ''Unknown log level: '' @ logLevel props), this0)
     else if \<not> Token_isUnresolved (metricsLevel props)
             \<and> \<not> Array_includes AllowedMetricLevels (metricsLevel props)
     then Inl (Error (lit ''Unknown metrics level: '' @ metricsLevel props), this0)
     else
     andThen (new_construct lib ''LogGroup'' (logs_LogGroup (logsRetentionDays props) RETAIN) this0)
      (\<lambda>this1.
     let this1 = this1\<lparr>LogGroup := Some ''LogGroup''\<rparr>;
         logStream = ''LogStream''
     in
     andThen (new_construct lib logStream (logs_LogStream ''LogGroup'' RETAIN) this1)
      (\<lambda>this2.
     andThen (createRole lib (codeBucketArn props) (codeFileKey props) this2)
      (\<lambda>(role', this3).
     andThen (grantRead lib (inputStream props) role' this3)
      (\<lambda>this4.
     andThen (grantReadWrite lib (outputBucket props) role' this4)
      (\<lambda>this5.
     let autoScalingCondition = ''EnableAutoScaling'' in
     andThen (new_construct lib autoScalingCondition
           (cdk_CfnCondition (Fn_conditionEquals (enableAutoScaling props) (lit ''true''))) this5)
      (\<lambda>this6.
     let snapshotCondition = ''EnableSnapshots'' in
     andThen (new_construct lib snapshotCondition
           (cdk_CfnCondition (Fn_conditionEquals (enableSnapshots props) (lit ''true''))) this6)
      (\<lambda>this7.
     andThen (new_construct lib ''Application''
           (analytics_CfnApplicationV2
             \<lparr>runtimeEnvironment = ''FLINK-1_8'',
              serviceExecutionRole = roleArn role',
              applicationConfiguration =
               \<lparr>applicationCodeConfiguration =
                  \<lparr>codeContent =
                     \<lparr>s3ContentLocation =
                        \<lparr>bucketArn = codeBucketArn props,
                         fileKey = codeFileKey props\<rparr>\<rparr>,
                   codeContentType = ''ZIPFILE''\<rparr>,
                environmentProperties =
                  \<lparr>propertyGroups =
                     [\<lparr>propertyGroupId = ''FlinkApplicationProperties'',
                       propertyMap =
                         [(''InputStreamName'', streamName (inputStream props)),
                          (''OutputBucketName'', bucketName (outputBucket props)),
                          (''Region'', Aws_REGION)]\<rparr>]\<rparr>,
                flinkApplicationConfiguration =
                  \<lparr>monitoringConfiguration =
                     \<lparr>monitoring_configurationType = ''CUSTOM'',
                      monitoring_logLevel = logLevel props,
                      monitoring_metricsLevel = metricsLevel props\<rparr>,
                   parallelismConfiguration =
                     \<lparr>parallelism_configurationType = ''CUSTOM'',
                      autoScalingEnabled =
                        Fn_conditionIf (logicalId autoScalingCondition) True False\<rparr>,
                   checkpointConfiguration =
                     \<lparr>checkpoint_configurationType = ''DEFAULT''\<rparr>\<rparr>,
                applicationSnapshotConfiguration =
                  \<lparr>snapshotsEnabled =
                     Fn_conditionIf (logicalId snapshotCondition) True False\<rparr>\<rparr>\<rparr>) this7)
      (\<lambda>this8.
     let this8 = this8\<lparr>Application := Some ''Application''\<rparr> in
     andThen (configureLogging lib (logStreamName logStream) this8)
      (\<lambda>this9.
     createCustomResource lib (subnetIds props) (securityGroupIds props) this9)))))))))))"

section \<open>Reading the finished construct\<close>

definition child :: "FlinkApplication \<Rightarrow> string \<Rightarrow> resource option" where
  "child this n = map_of (children this) n"

fun statements_of :: "resource option \<Rightarrow> PolicyStatement list" where
  "statements_of (Some (iam_Policy sts rs md)) = sts"
| "statements_of other = []"

text \<open>
  The policy set of a role: the statements of the policies attached to it, in the order of
  attachment, followed by the grants it was handed.
\<close>

definition role_policy_set :: "FlinkApplication \<Rightarrow> string \<Rightarrow> grant list" where
  "role_policy_set this r =
     (case child this r of
        Some (iam_Role svc ps gs) \<Rightarrow>
          map Statement (concat (map (\<lambda>p. statements_of (child this p)) ps)) @ gs
      | _ \<Rightarrow> [])"

fun application_props :: "resource option \<Rightarrow> CfnApplicationV2Props option" where
  "application_props (Some (analytics_CfnApplicationV2 ps)) = Some ps"
| "application_props other = None"

fun condition_of :: "resource option \<Rightarrow> condition_expression option" where
  "condition_of (Some (cdk_CfnCondition e)) = Some e"
| "condition_of other = None"

fun function_props :: "resource option \<Rightarrow> FunctionProps option" where
  "function_props (Some (lambda_Function ps)) = Some ps"
| "function_props other = None"

fun inline_policy :: "resource option \<Rightarrow> (string \<times> PolicyStatement list) option" where
  "inline_policy (Some (ExecutionRole n doc)) = Some (n, doc)"
| "inline_policy other = None"

fun logging_applicationName :: "resource option \<Rightarrow> cdk_string option" where
  "logging_applicationName (Some (analytics_CfnApplicationCloudWatchLoggingOptionV2 app arn)) =
     Some app"
| "logging_applicationName other = None"

fun custom_properties :: "resource option \<Rightarrow> (string \<times> property_value) list option" where
  "custom_properties (Some (cdk_CustomResource tok ps ty)) = Some ps"
| "custom_properties other = None"

text \<open>The message of an error, when it is plain text.\<close>

fun message :: "Error \<Rightarrow> string option" where
  "message (Error m) = plain_text m"
| "message TypeError = None"
| "message (LibraryError msg) = Some msg"

text \<open>A message names the allowed set when every allowed value stands in it.\<close>

definition names_allowed_set :: "string list \<Rightarrow> Error \<Rightarrow> bool" where
  "names_allowed_set allowed e =
     (case message e of None \<Rightarrow> False | Some m \<Rightarrow> list_all (\<lambda>a. sublist a m) allowed)"

definition names_value :: "cdk_string \<Rightarrow> Error \<Rightarrow> bool" where
  "names_value v e =
     (case (plain_text v, message e) of (Some t, Some m) \<Rightarrow> sublist t m | _ \<Rightarrow> False)"

section \<open>Resolution of deferred expressions\<close>

text \<open>
  The templating engine replaces each marker by its value (\<open>env\<close>) and reads the two
  intrinsic functions in the usual way: the equality compares the resolved strings, the
  ternary picks a branch by the condition it names.
\<close>

fun resolve_piece :: "(token \<Rightarrow> string) \<Rightarrow> piece \<Rightarrow> string" where
  "resolve_piece env (Text t) = t"
| "resolve_piece env (Tok k) = env k"

definition resolve_string :: "(token \<Rightarrow> string) \<Rightarrow> cdk_string \<Rightarrow> string" where
  "resolve_string env s = concat (map (resolve_piece env) s)"

fun eval_condition :: "(token \<Rightarrow> string) \<Rightarrow> condition_expression \<Rightarrow> bool" where
  "eval_condition env (Fn_conditionEquals a b) = (resolve_string env a = resolve_string env b)"

fun resolve_bool ::
  "(token \<Rightarrow> string) \<Rightarrow> FlinkApplication \<Rightarrow> resolvable_bool \<Rightarrow> bool option" where
  "resolve_bool env this (Plain b) = Some b"
| "resolve_bool env this (Fn_conditionIf c t e) =
     (case condition_of (child this c) of
        None \<Rightarrow> None
      | Some ce \<Rightarrow> Some (if eval_condition env ce then t else e))"

section \<open>The network attachment request and its handler\<close>

type_synonym request = "cdk_string \<times> cdk_string list \<times> cdk_string list"

text \<open>The request the synthetic resource carries: application id, subnet ids, security
  group ids.\<close>

definition request_of :: "FlinkApplication \<Rightarrow> request option" where
  "request_of this =
     (case custom_properties (child this ''VpcConfiguration'') of
        None \<Rightarrow> None
      | Some ps \<Rightarrow>
         (case (map_of ps ''ApplicationName'', map_of ps ''SubnetIds'',
                map_of ps ''SecurityGroupIds'') of
            (Some (StringValue a), Some (ListValue sn), Some (ListValue sg)) \<Rightarrow> Some (a, sn, sg)
          | _ \<Rightarrow> None))"

datatype lifecycle_event = Create | Update | Delete

type_synonym attachment_state = "cdk_string \<rightharpoonup> cdk_string list \<times> cdk_string list"

text \<open>Modelled from the spec: the callback function of \<^verbatim>\<open>lambda/kda-vpc-config\<close>, which is
  not among the sources. The spec has the request carry the desired state: on create and
  on update the handler brings the application's attachment to the lists of the request,
  on delete it detaches.
\<close>

fun reconcile :: "lifecycle_event \<Rightarrow> request \<Rightarrow> attachment_state \<Rightarrow> attachment_state" where
  "reconcile Create (a, sn, sg) st = st(a \<mapsto> (sn, sg))"
| "reconcile Update (a, sn, sg) st = st(a \<mapsto> (sn, sg))"
| "reconcile Delete (a, sn, sg) st = st(a := None)"

section \<open>Sample inputs\<close>

definition sample :: FlinkApplicationProps where
  "sample =
     \<lparr>inputStream = \<lparr>streamName = [Tok (Ref ''Stream'')]\<rparr>,
      outputBucket = \<lparr>bucketName = [Tok (Ref ''Bucket'')]\<rparr>,
      logsRetentionDays = 365,
      logLevel = lit ''INFO'',
      metricsLevel = lit ''APPLICATION'',
      codeBucketArn = lit ''arn:aws:s3:::code'',
      codeFileKey = lit ''app.zip'',
      enableSnapshots = lit ''false'',
      enableAutoScaling = lit ''true'',
      subnetIds = Some [],
      securityGroupIds = None\<rparr>"

text \<open>A library none of whose calls throws.\<close>

definition never_fails :: library where
  "never_fails c = None"

text \<open>
  A library with two of the rejections of the construct library: the base constructor
  refuses an id already defined in the scope, and the constructor of a log group refuses
  a retention that is not positive.
\<close>

fun rejecting :: library where
  "rejecting (Construct_super scope id') =
     (if id' \<in> set scope then Some ''There is already a Construct with this name'' else None)"
| "rejecting (Construct_new n (logs_LogGroup retention removal)) =
     (if retention \<le> 0 then Some ''retentionInDays must be positive'' else None)"
| "rejecting c = None"

section \<open>Facts about strings\<close>

lemma unresolved_iff_no_plain_text: "Token_isUnresolved s \<longleftrightarrow> plain_text s = None"
  by (induction s rule: plain_text.induct) (simp_all add: Token_isUnresolved_def)

lemma includes_iff_plain_member:
  "Array_includes xs s \<longleftrightarrow> (\<exists>t. plain_text s = Some t \<and> t \<in> set xs)"
  by (cases "plain_text s") (simp_all add: Array_includes_def)

lemma plain_text_lit_append: "plain_text (lit p @ s) = map_option ((@) p) (plain_text s)"
  by (simp add: lit_def)

lemma plain_text_lit: "plain_text (lit p) = Some p"
  by (simp add: lit_def)

lemma resolve_string_append:
  "resolve_string env (a @ b) = resolve_string env a @ resolve_string env b"
  by (simp add: resolve_string_def)

lemma resolve_string_lit: "resolve_string env (lit t) = t"
  by (simp add: resolve_string_def lit_def)

section \<open>The outcomes of the constructor\<close>

lemma andThen_Inr_iff: "(andThen r f = Inr x) = (\<exists>v. r = Inr v \<and> f v = Inr x)"
  by (cases r) (simp_all add: andThen_def)

lemma andThen_Inl_iff: "(andThen r f = Inl e) = (r = Inl e \<or> (\<exists>v. r = Inr v \<and> f v = Inl e))"
  by (cases r) (simp_all add: andThen_def)

lemma calling_Inr_iff: "(calling lib c this this' = Inr v) = (lib c = None \<and> v = this')"
  by (cases "lib c") (auto simp: calling_def)

lemma calling_Inl_iff:
  "(calling lib c this this' = Inl e) = (\<exists>msg. lib c = Some msg \<and> e = (LibraryError msg, this))"
  by (cases "lib c") (auto simp: calling_def)

lemmas constructor_defs =
  FlinkApplication_constructor_def createRole_def configureLogging_def
  createCustomResource_def ExecutionRole_new_def new_construct_def fromAsset_def
  attachToRole_def grantRead_def grantReadWrite_def addChild_def updateChild_def
  ApplicationName_def LogGroupName_def Let_def

lemmas outcome_iffs = andThen_Inr_iff andThen_Inl_iff calling_Inr_iff calling_Inl_iff

lemma constructor_throws_Error:
  assumes "FlinkApplication_constructor lib scope id' props = Inl (Error m, partial)"
  shows "lib (Construct_super scope id') = None"
    and "partial = \<lparr>Application = None, LogGroup = None, children = []\<rparr>"
    and "(\<not> Token_isUnresolved (logLevel props)
            \<and> \<not> Array_includes AllowedLogLevels (logLevel props)
            \<and> m = lit ''Unknown log level: '' @ logLevel props)
       \<or> ((Token_isUnresolved (logLevel props) \<or> Array_includes AllowedLogLevels (logLevel props))
            \<and> \<not> Token_isUnresolved (metricsLevel props)
            \<and> \<not> Array_includes AllowedMetricLevels (metricsLevel props)
            \<and> m = lit ''Unknown metrics level: '' @ metricsLevel props)"
  using assms by (auto simp: constructor_defs outcome_iffs split: if_splits)

lemma constructor_throws_when_invalid:
  assumes "(\<not> Token_isUnresolved (logLevel props)
              \<and> \<not> Array_includes AllowedLogLevels (logLevel props))
         \<or> (\<not> Token_isUnresolved (metricsLevel props)
              \<and> \<not> Array_includes AllowedMetricLevels (metricsLevel props))"
  shows "\<exists>e. FlinkApplication_constructor lib scope id' props
           = Inl (e, \<lparr>Application = None, LogGroup = None, children = []\<rparr>)"
  using assms
  by (cases "lib (Construct_super scope id')")
     (auto simp: FlinkApplication_constructor_def andThen_def calling_def Let_def)

lemma constructor_returns:
  assumes "FlinkApplication_constructor lib scope id' props = Inr this"
  shows "Token_isUnresolved (logLevel props) \<or> Array_includes AllowedLogLevels (logLevel props)"
    and "Token_isUnresolved (metricsLevel props)
           \<or> Array_includes AllowedMetricLevels (metricsLevel props)"
    and "Application this = Some ''Application''"
    and "LogGroup this = Some ''LogGroup''"
    and "FlinkApplication_constructor never_fails scope' id'' props = Inr this"
  using assms by (auto simp: constructor_defs outcome_iffs never_fails_def split: if_splits)

lemma constructor_returns_when_valid:
  assumes "Token_isUnresolved (logLevel props) \<or> Array_includes AllowedLogLevels (logLevel props)"
    and "Token_isUnresolved (metricsLevel props)
           \<or> Array_includes AllowedMetricLevels (metricsLevel props)"
  shows "\<exists>this. FlinkApplication_constructor never_fails scope id' props = Inr this"
  using assms by (auto simp: constructor_defs outcome_iffs never_fails_def)

lemma lit_allowed:
  "Array_includes AllowedLogLevels (lit ''DEBUG'')" "Array_includes AllowedLogLevels (lit ''ERROR'')"
  "Array_includes AllowedLogLevels (lit ''INFO'')" "Array_includes AllowedLogLevels (lit ''WARN'')"
  "Array_includes AllowedMetricLevels (lit ''APPLICATION'')"
  "Array_includes AllowedMetricLevels (lit ''OPERATOR'')"
  "Array_includes AllowedMetricLevels (lit ''PARALLELISM'')"
  "Array_includes AllowedMetricLevels (lit ''TASK'')"
  by (simp_all add: Array_includes_def lit_def AllowedLogLevels_def AllowedMetricLevels_def)

lemma sample_returns:
  "\<exists>this. FlinkApplication_constructor never_fails [] ''KdaApplication'' sample = Inr this"
  using constructor_returns_when_valid [where props = sample]
  by (auto simp: sample_def lit_allowed)

lemma reconcile_twice: "reconcile ev r (reconcile ev r st) = reconcile ev r st"
  by (cases ev; cases r) simp_all

lemma names_value_prefixed:
  "plain_text v = Some t \<Longrightarrow> names_value v (Error (lit p @ v))"
  by (simp add: names_value_def plain_text_lit_append)

lemma message_prefixed:
  "plain_text v = Some t \<Longrightarrow> message (Error (lit p @ v)) = Some (p @ t)"
  by (simp add: plain_text_lit_append)

lemma role_policy_set_built:
  assumes "FlinkApplication_constructor lib scope id' props = Inr this"
  shows "role_policy_set this ''AppRole'' =
      [Statement \<lparr>resources = [codeBucketArn props @ lit ''/'' @ codeFileKey props],
                  actions = [''s3:GetObjectVersion'', ''s3:GetObject'']\<rparr>,
       Statement \<lparr>resources = [lit ''arn:'' @ Aws_PARTITION @ lit '':logs:'' @ Aws_REGION
                      @ lit '':'' @ Aws_ACCOUNT_ID @ lit '':log-group:*''],
                  actions = [''logs:DescribeLogGroups'']\<rparr>,
       Statement \<lparr>resources = [logGroupArn ''LogGroup''],
                  actions = [''logs:DescribeLogStreams'', ''logs:PutLogEvents'']\<rparr>,
       Statement \<lparr>resources = [lit ''*''],
                  actions = [''ec2:CreateNetworkInterface'', ''ec2:DescribeNetworkInterfaces'',
                             ''ec2:DescribeVpcs'', ''ec2:DeleteNetworkInterface'',
                             ''ec2:DescribeDhcpOptions'', ''ec2:DescribeSubnets'',
                             ''ec2:DescribeSecurityGroups'']\<rparr>,
       Statement \<lparr>resources = [lit ''arn:'' @ Aws_PARTITION @ lit '':ec2:'' @ Aws_REGION
                      @ lit '':'' @ Aws_ACCOUNT_ID @ lit '':network-interface/*''],
                  actions = [''ec2:CreateNetworkInterfacePermission'']\<rparr>,
       StreamRead (streamName (inputStream props)),
       BucketReadWrite (bucketName (outputBucket props))]"
  using assms
  by (auto simp: constructor_defs outcome_iffs role_policy_set_def child_def split: if_splits)

section \<open>Validation of the verbosity inputs\<close>

text \<open>
  With a library that refuses a log group whose retention is not positive, and one that
  refuses an id already in the scope, the constructor throws although the log level and
  the metrics level are both allowed values.
\<close>

theorem verbosity_validation_counterexample:
  "FlinkApplication_constructor rejecting [] ''KdaApplication'' (sample\<lparr>logsRetentionDays := 0\<rparr>)
     = Inl (LibraryError ''retentionInDays must be positive'',
            \<lparr>Application = None, LogGroup = None, children = []\<rparr>)
   \<and> FlinkApplication_constructor rejecting [''KdaApplication''] ''KdaApplication'' sample
     = Inl (LibraryError ''There is already a Construct with this name'',
            \<lparr>Application = None, LogGroup = None, children = []\<rparr>)
   \<and> plain_text (logLevel sample) = Some ''INFO'' \<and> ''INFO'' \<in> set AllowedLogLevels
   \<and> plain_text (metricsLevel sample) = Some ''APPLICATION''
   \<and> ''APPLICATION'' \<in> set AllowedMetricLevels"
  by (simp add: FlinkApplication_constructor_def new_construct_def andThen_def calling_def
      sample_def lit_def Token_isUnresolved_def Array_includes_def AllowedLogLevels_def
      AllowedMetricLevels_def)

text \<open>
  C1, amended. The constructor throws one of its two validation errors exactly when the
  base constructor has returned and the log level or the metrics level is concretely known
  (a string without a marker) and is not one of its allowed values, which are \<open>DEBUG\<close>,
  \<open>ERROR\<close>, \<open>INFO\<close>, \<open>WARN\<close> for the log level and \<open>APPLICATION\<close>, \<open>OPERATOR\<close>,
  \<open>PARALLELISM\<close>, \<open>TASK\<close> for the metrics level; so no allowed and no deferred value
  makes the validation fail. Whenever such a value is given, the constructor throws. It
  returns only when each of the two is deferred or allowed, and it does return then when
  no call of the library throws; a call of the library that throws makes it throw for
  allowed and deferred values too.
\<close>

theorem verbosity_validation:
  "((\<exists>m partial. FlinkApplication_constructor lib scope id' props = Inl (Error m, partial)) \<longleftrightarrow>
       lib (Construct_super scope id') = None
     \<and> ((\<exists>v. plain_text (logLevel props) = Some v
              \<and> v \<notin> {''DEBUG'', ''ERROR'', ''INFO'', ''WARN''})
        \<or> (\<exists>v. plain_text (metricsLevel props) = Some v
              \<and> v \<notin> {''APPLICATION'', ''OPERATOR'', ''PARALLELISM'', ''TASK''})))
   \<and> ((\<exists>v. plain_text (logLevel props) = Some v
              \<and> v \<notin> {''DEBUG'', ''ERROR'', ''INFO'', ''WARN''})
        \<or> (\<exists>v. plain_text (metricsLevel props) = Some v
              \<and> v \<notin> {''APPLICATION'', ''OPERATOR'', ''PARALLELISM'', ''TASK''})
       \<longrightarrow> (\<exists>e partial. FlinkApplication_constructor lib scope id' props = Inl (e, partial)))
   \<and> ((\<exists>this. FlinkApplication_constructor lib scope id' props = Inr this) \<longrightarrow>
       (Token_isUnresolved (logLevel props) \<or> Array_includes AllowedLogLevels (logLevel props))
     \<and> (Token_isUnresolved (metricsLevel props)
          \<or> Array_includes AllowedMetricLevels (metricsLevel props)))
   \<and> ((\<exists>this. FlinkApplication_constructor never_fails scope id' props = Inr this) \<longleftrightarrow>
       (Token_isUnresolved (logLevel props) \<or> Array_includes AllowedLogLevels (logLevel props))
     \<and> (Token_isUnresolved (metricsLevel props)
          \<or> Array_includes AllowedMetricLevels (metricsLevel props)))
   \<and> set AllowedLogLevels = {''DEBUG'', ''ERROR'', ''INFO'', ''WARN''}
   \<and> set AllowedMetricLevels = {''APPLICATION'', ''OPERATOR'', ''PARALLELISM'', ''TASK''}"
proof -
  let ?badL = "\<not> Token_isUnresolved (logLevel props)
                 \<and> \<not> Array_includes AllowedLogLevels (logLevel props)"
  let ?badM = "\<not> Token_isUnresolved (metricsLevel props)
                 \<and> \<not> Array_includes AllowedMetricLevels (metricsLevel props)"
  let ?L = "\<exists>v. plain_text (logLevel props) = Some v
              \<and> v \<notin> {''DEBUG'', ''ERROR'', ''INFO'', ''WARN''}"
  let ?M = "\<exists>v. plain_text (metricsLevel props) = Some v
              \<and> v \<notin> {''APPLICATION'', ''OPERATOR'', ''PARALLELISM'', ''TASK''}"
  have sets: "set AllowedLogLevels = {''DEBUG'', ''ERROR'', ''INFO'', ''WARN''}"
    "set AllowedMetricLevels = {''APPLICATION'', ''OPERATOR'', ''PARALLELISM'', ''TASK''}"
    by (simp_all add: AllowedLogLevels_def AllowedMetricLevels_def)
  have L: "?badL \<longleftrightarrow> ?L"
    unfolding unresolved_iff_no_plain_text includes_iff_plain_member sets by auto
  have M: "?badM \<longleftrightarrow> ?M"
    unfolding unresolved_iff_no_plain_text includes_iff_plain_member sets by auto
  have validation: "(\<exists>m partial. FlinkApplication_constructor lib scope id' props
                        = Inl (Error m, partial))
                  \<longleftrightarrow> lib (Construct_super scope id') = None \<and> (?badL \<or> ?badM)"
  proof
    assume "\<exists>m partial. FlinkApplication_constructor lib scope id' props = Inl (Error m, partial)"
    then obtain m partial
      where "FlinkApplication_constructor lib scope id' props = Inl (Error m, partial)"
      by blast
    from constructor_throws_Error(1,3) [OF this]
    show "lib (Construct_super scope id') = None \<and> (?badL \<or> ?badM)"
      by blast
  next
    assume "lib (Construct_super scope id') = None \<and> (?badL \<or> ?badM)"
    then show "\<exists>m partial. FlinkApplication_constructor lib scope id' props
                 = Inl (Error m, partial)"
      by (auto simp: FlinkApplication_constructor_def andThen_def calling_def Let_def)
  qed
  have c1: "(\<exists>m partial. FlinkApplication_constructor lib scope id' props = Inl (Error m, partial))
              \<longleftrightarrow> lib (Construct_super scope id') = None \<and> (?L \<or> ?M)"
    unfolding validation L M by (rule refl)
  have c2: "?L \<or> ?M
              \<longrightarrow> (\<exists>e partial. FlinkApplication_constructor lib scope id' props = Inl (e, partial))"
    unfolding L [symmetric] M [symmetric]
    using constructor_throws_when_invalid [of props lib scope id'] by blast
  have c3: "(\<exists>this. FlinkApplication_constructor lib scope id' props = Inr this) \<longrightarrow>
       (Token_isUnresolved (logLevel props) \<or> Array_includes AllowedLogLevels (logLevel props))
     \<and> (Token_isUnresolved (metricsLevel props)
          \<or> Array_includes AllowedMetricLevels (metricsLevel props))"
    using constructor_returns(1,2) by blast
  have c4: "(\<exists>this. FlinkApplication_constructor never_fails scope id' props = Inr this) \<longleftrightarrow>
       (Token_isUnresolved (logLevel props) \<or> Array_includes AllowedLogLevels (logLevel props))
     \<and> (Token_isUnresolved (metricsLevel props)
          \<or> Array_includes AllowedMetricLevels (metricsLevel props))"
    using constructor_returns(1,2) [of never_fails scope id' props]
      constructor_returns_when_valid [of props scope id'] by blast
  show ?thesis
    by (rule conjI [OF c1 conjI [OF c2 conjI [OF c3 conjI [OF c4 conjI [OF sets(1) sets(2)]]]]])
qed

theorem verbosity_validation_witness:
  "(\<exists>this. FlinkApplication_constructor never_fails [] ''KdaApplication'' sample = Inr this)
   \<and> (\<exists>m partial. FlinkApplication_constructor never_fails [] ''KdaApplication''
          (sample\<lparr>logLevel := lit ''TRACE''\<rparr>) = Inl (Error m, partial))
   \<and> (\<exists>e partial. FlinkApplication_constructor rejecting [''KdaApplication''] ''KdaApplication''
          (sample\<lparr>metricsLevel := lit ''HOST''\<rparr>) = Inl (e, partial))
   \<and> (\<exists>this. FlinkApplication_constructor never_fails [] ''KdaApplication''
         (sample\<lparr>logLevel := [Tok (Ref ''LogLevel'')], metricsLevel := [Tok (Ref ''MetricsLevel'')]\<rparr>)
           = Inr this)"
  using verbosity_validation [of never_fails "[]" "''KdaApplication''" sample]
    verbosity_validation [of never_fails "[]" "''KdaApplication''"
      "sample\<lparr>logLevel := lit ''TRACE''\<rparr>"]
    verbosity_validation [of rejecting "[''KdaApplication'']" "''KdaApplication''"
      "sample\<lparr>metricsLevel := lit ''HOST''\<rparr>"]
    verbosity_validation [of never_fails "[]" "''KdaApplication''"
      "sample\<lparr>logLevel := [Tok (Ref ''LogLevel'')],
              metricsLevel := [Tok (Ref ''MetricsLevel'')]\<rparr>"]
  by (simp add: sample_def lit_def Token_isUnresolved_def Array_includes_def
      AllowedLogLevels_def AllowedMetricLevels_def never_fails_def)

section \<open>The policy set of the execution role\<close>

text \<open>
  C2. After every successful construction the role of the application holds exactly seven
  grants: the statement reading the code object, the statement describing log groups at
  wildcard scope, the statement on the created log group, the statement for the lifecycle
  of network interfaces at wildcard scope, the statement creating network interface
  permissions on the network interface pattern, the read grant of the input stream and
  the read/write grant of the output bucket. The role is the one the application runs as.
\<close>

theorem execution_role_policy_set:
  assumes "FlinkApplication_constructor lib scope id' props = Inr this"
  shows "role_policy_set this ''AppRole'' =
      [Statement \<lparr>resources = [codeBucketArn props @ lit ''/'' @ codeFileKey props],
                  actions = [''s3:GetObjectVersion'', ''s3:GetObject'']\<rparr>,
       Statement \<lparr>resources = [lit ''arn:'' @ Aws_PARTITION @ lit '':logs:'' @ Aws_REGION
                      @ lit '':'' @ Aws_ACCOUNT_ID @ lit '':log-group:*''],
                  actions = [''logs:DescribeLogGroups'']\<rparr>,
       Statement \<lparr>resources = [logGroupArn ''LogGroup''],
                  actions = [''logs:DescribeLogStreams'', ''logs:PutLogEvents'']\<rparr>,
       Statement \<lparr>resources = [lit ''*''],
                  actions = [''ec2:CreateNetworkInterface'', ''ec2:DescribeNetworkInterfaces'',
                             ''ec2:DescribeVpcs'', ''ec2:DeleteNetworkInterface'',
                             ''ec2:DescribeDhcpOptions'', ''ec2:DescribeSubnets'',
                             ''ec2:DescribeSecurityGroups'']\<rparr>,
       Statement \<lparr>resources = [lit ''arn:'' @ Aws_PARTITION @ lit '':ec2:'' @ Aws_REGION
                      @ lit '':'' @ Aws_ACCOUNT_ID @ lit '':network-interface/*''],
                  actions = [''ec2:CreateNetworkInterfacePermission'']\<rparr>,
       StreamRead (streamName (inputStream props)),
       BucketReadWrite (bucketName (outputBucket props))]
    \<and> length (role_policy_set this ''AppRole'') = 7
    \<and> map_option serviceExecutionRole (application_props (child this ''Application''))
        = Some (roleArn ''AppRole'')"
proof -
  note grants = role_policy_set_built [OF assms]
  have "length (role_policy_set this ''AppRole'') = 7"
    unfolding grants by simp
  moreover have "map_option serviceExecutionRole (application_props (child this ''Application''))
        = Some (roleArn ''AppRole'')"
    using assms by (auto simp: constructor_defs outcome_iffs child_def split: if_splits)
  ultimately show ?thesis
    using grants by (intro conjI)
qed

theorem execution_role_policy_set_witness:
  "\<exists>this. FlinkApplication_constructor never_fails [] ''KdaApplication'' sample = Inr this
     \<and> length (role_policy_set this ''AppRole'') = 7
     \<and> role_policy_set this ''AppRole'' ! 0 =
         Statement \<lparr>resources = [[Text ''arn:aws:s3:::code'', Text ''/'', Text ''app.zip'']],
                    actions = [''s3:GetObjectVersion'', ''s3:GetObject'']\<rparr>
     \<and> role_policy_set this ''AppRole'' ! 5 = StreamRead [Tok (Ref ''Stream'')]
     \<and> role_policy_set this ''AppRole'' ! 6 = BucketReadWrite [Tok (Ref ''Bucket'')]"
proof -
  obtain this where built: "FlinkApplication_constructor never_fails [] ''KdaApplication'' sample = Inr this"
    using sample_returns by blast
  from execution_role_policy_set [OF built] show ?thesis
    using built by (simp add: sample_def lit_def)
qed

section \<open>The message of a validation failure\<close>

text \<open>
  For the log level \<open>TRACE\<close> the constructor throws with the message
  \<open>Unknown log level: TRACE\<close>, in which the allowed values do not stand.
\<close>

theorem validation_message_counterexample:
  "FlinkApplication_constructor never_fails [] ''KdaApplication'' (sample\<lparr>logLevel := lit ''TRACE''\<rparr>)
     = Inl (Error (lit ''Unknown log level: '' @ lit ''TRACE''),
            \<lparr>Application = None, LogGroup = None, children = []\<rparr>)
   \<and> message (Error (lit ''Unknown log level: '' @ lit ''TRACE''))
       = Some ''Unknown log level: TRACE''
   \<and> \<not> names_allowed_set AllowedLogLevels (Error (lit ''Unknown log level: '' @ lit ''TRACE''))"
  by (simp add: FlinkApplication_constructor_def andThen_def calling_def never_fails_def
      sample_def lit_def Token_isUnresolved_def
      Array_includes_def AllowedLogLevels_def names_allowed_set_def sublist_code)

text \<open>
  C3, amended. Every validation failure carries a message made of the fixed prefix
  \<open>Unknown log level: \<close> or \<open>Unknown metrics level: \<close> followed by the offending value,
  which is concretely known and not allowed; so the message names the offending value.
\<close>

theorem validation_message:
  assumes "FlinkApplication_constructor lib scope id' props = Inl (Error m, partial)"
  shows "(\<exists>v. plain_text (logLevel props) = Some v \<and> v \<notin> set AllowedLogLevels
            \<and> message (Error m) = Some (''Unknown log level: '' @ v)
            \<and> names_value (logLevel props) (Error m))
       \<or> (\<exists>v. plain_text (metricsLevel props) = Some v \<and> v \<notin> set AllowedMetricLevels
            \<and> message (Error m) = Some (''Unknown metrics level: '' @ v)
            \<and> names_value (metricsLevel props) (Error m))"
proof -
  from constructor_throws_Error(3) [OF assms]
  consider (log) "\<not> Token_isUnresolved (logLevel props)"
      "\<not> Array_includes AllowedLogLevels (logLevel props)"
      "m = lit ''Unknown log level: '' @ logLevel props"
    | (metrics) "\<not> Token_isUnresolved (metricsLevel props)"
      "\<not> Array_includes AllowedMetricLevels (metricsLevel props)"
      "m = lit ''Unknown metrics level: '' @ metricsLevel props"
    by blast
  then show ?thesis
  proof cases
    case log
    from log(1) obtain v where v: "plain_text (logLevel props) = Some v"
      by (auto simp: unresolved_iff_no_plain_text)
    with log(2) have "v \<notin> set AllowedLogLevels"
      by (simp add: includes_iff_plain_member)
    moreover have "message (Error m) = Some (''Unknown log level: '' @ v)"
      unfolding log(3) by (rule message_prefixed [OF v])
    moreover have "names_value (logLevel props) (Error m)"
      unfolding log(3) by (rule names_value_prefixed [OF v])
    ultimately show ?thesis using v by blast
  next
    case metrics
    from metrics(1) obtain v where v: "plain_text (metricsLevel props) = Some v"
      by (auto simp: unresolved_iff_no_plain_text)
    with metrics(2) have "v \<notin> set AllowedMetricLevels"
      by (simp add: includes_iff_plain_member)
    moreover have "message (Error m) = Some (''Unknown metrics level: '' @ v)"
      unfolding metrics(3) by (rule message_prefixed [OF v])
    moreover have "names_value (metricsLevel props) (Error m)"
      unfolding metrics(3) by (rule names_value_prefixed [OF v])
    ultimately show ?thesis using v by blast
  qed
qed

theorem validation_message_witness:
  "\<exists>m partial. FlinkApplication_constructor never_fails [] ''KdaApplication''
        (sample\<lparr>metricsLevel := lit ''HOST''\<rparr>) = Inl (Error m, partial)
      \<and> message (Error m) = Some ''Unknown metrics level: HOST''
      \<and> names_value (lit ''HOST'') (Error m)"
proof -
  obtain m partial
    where thrown: "FlinkApplication_constructor never_fails [] ''KdaApplication''
        (sample\<lparr>metricsLevel := lit ''HOST''\<rparr>) = Inl (Error m, partial)"
    by (simp add: FlinkApplication_constructor_def andThen_def calling_def never_fails_def
        sample_def lit_def Token_isUnresolved_def
        Array_includes_def AllowedLogLevels_def AllowedMetricLevels_def)
  from validation_message [OF thrown] show ?thesis
    using thrown by (simp add: sample_def lit_def AllowedLogLevels_def)
qed

section \<open>The feature toggles\<close>

text \<open>
  C4. For auto-scaling and for snapshots the construct defines a condition holding the
  equality of the toggle input with the literal \<open>true\<close>, and puts a ternary over that
  condition, with branches true and false, into the field of the application (never a
  plain boolean). Once the engine has resolved the toggle input, the field yields true
  when the input is the string \<open>true\<close> and false for every other string.
\<close>

theorem feature_toggles_deferred:
  assumes "FlinkApplication_constructor lib scope id' props = Inr this"
  shows "\<exists>app. application_props (child this ''Application'') = Some app
     \<and> child this ''EnableAutoScaling''
         = Some (cdk_CfnCondition (Fn_conditionEquals (enableAutoScaling props) (lit ''true'')))
     \<and> child this ''EnableSnapshots''
         = Some (cdk_CfnCondition (Fn_conditionEquals (enableSnapshots props) (lit ''true'')))
     \<and> autoScalingEnabled
          (parallelismConfiguration (flinkApplicationConfiguration (applicationConfiguration app)))
         = Fn_conditionIf ''EnableAutoScaling'' True False
     \<and> snapshotsEnabled (applicationSnapshotConfiguration (applicationConfiguration app))
         = Fn_conditionIf ''EnableSnapshots'' True False
     \<and> resolve_bool env this
          (autoScalingEnabled
            (parallelismConfiguration (flinkApplicationConfiguration (applicationConfiguration app))))
         = Some (resolve_string env (enableAutoScaling props) = ''true'')
     \<and> resolve_bool env this
          (snapshotsEnabled (applicationSnapshotConfiguration (applicationConfiguration app)))
         = Some (resolve_string env (enableSnapshots props) = ''true'')"
  using assms
  by (auto simp: constructor_defs outcome_iffs child_def logicalId_def resolve_string_lit split: if_splits)

theorem feature_toggles_deferred_witness:
  "\<exists>this app. FlinkApplication_constructor never_fails [] ''KdaApplication''
        (sample\<lparr>enableAutoScaling := [Tok (Ref ''AutoScalingParam'')]\<rparr>) = Inr this
     \<and> application_props (child this ''Application'') = Some app
     \<and> resolve_bool (\<lambda>k. if k = Ref ''AutoScalingParam'' then ''true'' else ''TRUE'') this
          (autoScalingEnabled
            (parallelismConfiguration (flinkApplicationConfiguration (applicationConfiguration app))))
         = Some True
     \<and> resolve_bool (\<lambda>k. if k = Ref ''AutoScalingParam'' then ''true'' else ''TRUE'') this
          (snapshotsEnabled (applicationSnapshotConfiguration (applicationConfiguration app)))
         = Some False"
proof -
  let ?p = "sample\<lparr>enableAutoScaling := [Tok (Ref ''AutoScalingParam'')]\<rparr>"
  obtain this where built: "FlinkApplication_constructor never_fails [] ''KdaApplication'' ?p = Inr this"
    using constructor_returns_when_valid [where props = ?p] by (auto simp: sample_def lit_allowed)
  from feature_toggles_deferred
    [OF built, of "\<lambda>k. if k = Ref ''AutoScalingParam'' then ''true'' else ''TRUE''"]
  show ?thesis
    using built by (auto simp: sample_def resolve_string_def lit_def)
qed

section \<open>The network attachment request\<close>

text \<open>
  C5. The request of the synthetic resource always has a list under \<open>SubnetIds\<close> and a
  list under \<open>SecurityGroupIds\<close>: the list the caller gave (an empty list stays an empty
  list), and the empty list when the caller gave none.
\<close>

theorem network_lists_always_present:
  assumes "FlinkApplication_constructor lib scope id' props = Inr this"
  shows "\<exists>ps. custom_properties (child this ''VpcConfiguration'') = Some ps
     \<and> map_of ps ''SubnetIds''
         = Some (ListValue (case subnetIds props of None \<Rightarrow> [] | Some ids \<Rightarrow> ids))
     \<and> map_of ps ''SecurityGroupIds''
         = Some (ListValue (case securityGroupIds props of None \<Rightarrow> [] | Some ids \<Rightarrow> ids))"
proof -
  have "nullish v [] = (case v of None \<Rightarrow> [] | Some ids \<Rightarrow> ids)" for v :: "cdk_string list option"
    by (cases v) simp_all
  with assms show ?thesis
    by (auto simp: constructor_defs outcome_iffs child_def split: if_splits)
qed

theorem network_lists_always_present_witness:
  "subnetIds sample = Some [] \<and> securityGroupIds sample = None
   \<and> (\<exists>this ps. FlinkApplication_constructor never_fails [] ''KdaApplication'' sample = Inr this
        \<and> custom_properties (child this ''VpcConfiguration'') = Some ps
        \<and> map_of ps ''SubnetIds'' = Some (ListValue [])
        \<and> map_of ps ''SecurityGroupIds'' = Some (ListValue []))"
proof -
  obtain this where built: "FlinkApplication_constructor never_fails [] ''KdaApplication'' sample = Inr this"
    using sample_returns by blast
  from network_lists_always_present [OF built] show ?thesis
    using built by (auto simp: sample_def)
qed

text \<open>
  C6. The request the construct issues is the triple of the application id, the subnet
  ids and the security group ids; two constructions with the same two lists issue the same
  request, whatever their other inputs. Handling that request twice for the same
  lifecycle event leaves the attachment state as handling it once does.
\<close>

theorem network_request_idempotent:
  assumes "FlinkApplication_constructor lib scope id' props = Inr this"
    and "FlinkApplication_constructor lib' scope' id'' props' = Inr this'"
    and "subnetIds props' = subnetIds props"
    and "securityGroupIds props' = securityGroupIds props"
  shows "\<exists>r. request_of this = Some r
     \<and> r = (ref ''Application'', nullish (subnetIds props) [], nullish (securityGroupIds props) [])
     \<and> request_of this' = Some r
     \<and> reconcile ev r (reconcile ev r st) = reconcile ev r st"
proof -
  have req: "request_of t
      = Some (ref ''Application'', nullish (subnetIds p) [], nullish (securityGroupIds p) [])"
    if "FlinkApplication_constructor l s i p = Inr t" for l s i p t
    using that by (auto simp: constructor_defs outcome_iffs request_of_def child_def split: if_splits)
  from req [OF assms(1)] req [OF assms(2)] assms(3,4) show ?thesis
    by (simp add: reconcile_twice)
qed

theorem network_request_idempotent_witness:
  "\<exists>this this'. FlinkApplication_constructor never_fails [] ''KdaApplication'' sample = Inr this
     \<and> FlinkApplication_constructor never_fails [] ''KdaApplication'' (sample\<lparr>logLevel := lit ''DEBUG''\<rparr>) = Inr this'
     \<and> request_of this = Some ([Tok (Ref ''Application'')], [], [])
     \<and> request_of this' = request_of this
     \<and> reconcile Update ([Tok (Ref ''Application'')], [], [])
          (reconcile Update ([Tok (Ref ''Application'')], [], []) Map.empty)
        = reconcile Update ([Tok (Ref ''Application'')], [], []) Map.empty"
proof -
  let ?p = "sample\<lparr>logLevel := lit ''DEBUG''\<rparr>"
  obtain this where built: "FlinkApplication_constructor never_fails [] ''KdaApplication'' sample = Inr this"
    using sample_returns by blast
  obtain this' where built': "FlinkApplication_constructor never_fails [] ''KdaApplication'' ?p = Inr this'"
    using constructor_returns_when_valid [where props = ?p] by (auto simp: sample_def lit_allowed)
  have "subnetIds ?p = subnetIds sample" "securityGroupIds ?p = securityGroupIds sample"
    by simp_all
  from network_request_idempotent [OF built built' this, of Update Map.empty]
  show ?thesis
    using built built' by (auto simp: sample_def ref_def)
qed

section \<open>The role of the callback function\<close>

text \<open>
  C7. The callback function runs under the role \<open>CustomResourceRole\<close>, whose inline policy
  \<open>VpcConfigPolicy\<close> is one statement with exactly the three actions adding a VPC
  configuration, deleting a VPC configuration and describing the application, on exactly
  one resource: the pattern of this application's identifier.
\<close>

theorem callback_role_permissions:
  assumes "FlinkApplication_constructor lib scope id' props = Inr this"
  shows "map_option role (function_props (child this ''CustomResource''))
           = Some ''CustomResourceRole''
     \<and> (\<exists>app. ApplicationName this = Some app
          \<and> inline_policy (child this ''CustomResourceRole'')
              = Some (''VpcConfigPolicy'',
                  [\<lparr>resources = [lit ''arn:'' @ Aws_PARTITION @ lit '':kinesisanalytics:''
                        @ Aws_REGION @ lit '':'' @ Aws_ACCOUNT_ID @ lit '':application/'' @ app],
                    actions = [''kinesisanalytics:AddApplicationVpcConfiguration'',
                               ''kinesisanalytics:DeleteApplicationVpcConfiguration'',
                               ''kinesisanalytics:DescribeApplication'']\<rparr>]))"
  using assms
  by (auto simp: constructor_defs outcome_iffs child_def split: if_splits)

theorem callback_role_permissions_witness:
  "\<exists>this doc. FlinkApplication_constructor never_fails [] ''KdaApplication'' sample = Inr this
     \<and> inline_policy (child this ''CustomResourceRole'') = Some (''VpcConfigPolicy'', doc)
     \<and> length doc = 1
     \<and> concat (map actions doc) =
          [''kinesisanalytics:AddApplicationVpcConfiguration'',
           ''kinesisanalytics:DeleteApplicationVpcConfiguration'',
           ''kinesisanalytics:DescribeApplication'']
     \<and> map resources doc =
          [[[Text ''arn:'', Tok (Pseudo ''AWS::Partition''), Text '':kinesisanalytics:'',
             Tok (Pseudo ''AWS::Region''), Text '':'', Tok (Pseudo ''AWS::AccountId''),
             Text '':application/'', Tok (Ref ''Application'')]]]"
proof -
  obtain this where built: "FlinkApplication_constructor never_fails [] ''KdaApplication'' sample = Inr this"
    using sample_returns by blast
  from callback_role_permissions [OF built] constructor_returns(3) [OF built] show ?thesis
    using built
    by (auto simp: ApplicationName_def ref_def lit_def Aws_PARTITION_def Aws_REGION_def
        Aws_ACCOUNT_ID_def)
qed

section \<open>Failure before any resource\<close>

text \<open>
  C8. When the constructor throws a validation error, the object has no child construct
  and neither private field set. When the log level or the metrics level is concretely
  known and not allowed, the constructor throws with the object in that state, whatever
  the library does, and what it throws is a validation error once the base constructor
  has returned: the throw comes before the log group, the log stream, the role, the
  policies, the conditions, the application, the logging option and the custom resource
  are defined.
\<close>

theorem validation_precedes_resources:
  "(FlinkApplication_constructor lib scope id' props = Inl (Error m, partial)
      \<longrightarrow> children partial = [] \<and> Application partial = None \<and> LogGroup partial = None)
   \<and> ((\<not> Token_isUnresolved (logLevel props)
          \<and> \<not> Array_includes AllowedLogLevels (logLevel props))
        \<or> (\<not> Token_isUnresolved (metricsLevel props)
          \<and> \<not> Array_includes AllowedMetricLevels (metricsLevel props))
      \<longrightarrow> (\<exists>e. FlinkApplication_constructor lib scope id' props
                 = Inl (e, \<lparr>Application = None, LogGroup = None, children = []\<rparr>)
               \<and> (lib (Construct_super scope id') = None \<longrightarrow> (\<exists>m'. e = Error m'))))"
proof (intro conjI impI)
  assume "FlinkApplication_constructor lib scope id' props = Inl (Error m, partial)"
  from constructor_throws_Error(2) [OF this]
  show "children partial = []" "Application partial = None" "LogGroup partial = None"
    by simp_all
next
  assume invalid: "(\<not> Token_isUnresolved (logLevel props)
          \<and> \<not> Array_includes AllowedLogLevels (logLevel props))
        \<or> (\<not> Token_isUnresolved (metricsLevel props)
          \<and> \<not> Array_includes AllowedMetricLevels (metricsLevel props))"
  then show "\<exists>e. FlinkApplication_constructor lib scope id' props
                 = Inl (e, \<lparr>Application = None, LogGroup = None, children = []\<rparr>)
               \<and> (lib (Construct_super scope id') = None \<longrightarrow> (\<exists>m'. e = Error m'))"
    by (cases "lib (Construct_super scope id')")
       (auto simp: FlinkApplication_constructor_def andThen_def calling_def Let_def)
qed

theorem validation_precedes_resources_witness:
  "\<exists>m. FlinkApplication_constructor never_fails [] ''KdaApplication''
          (sample\<lparr>logLevel := lit ''verbose''\<rparr>)
        = Inl (Error m, \<lparr>Application = None, LogGroup = None, children = []\<rparr>)"
  using validation_precedes_resources
    [of never_fails "[]" "''KdaApplication''" "sample\<lparr>logLevel := lit ''verbose''\<rparr>"]
  by (auto simp: sample_def lit_def Token_isUnresolved_def Array_includes_def
      AllowedLogLevels_def never_fails_def)

section \<open>The grant on the code artifact\<close>

text \<open>
  C9. The policy \<open>CodePolicy\<close>, attached to the application's role, is one statement with
  the two actions reading an object and reading an object version, on the one resource
  made of the code bucket's ARN, a slash and the file key; that resource resolves to the
  path of the object and is not the bucket's ARN.
\<close>

theorem code_artifact_grant:
  assumes "FlinkApplication_constructor lib scope id' props = Inr this"
  shows "child this ''CodePolicy''
           = Some (iam_Policy
               [\<lparr>resources = [codeBucketArn props @ lit ''/'' @ codeFileKey props],
                 actions = [''s3:GetObjectVersion'', ''s3:GetObject'']\<rparr>] [''AppRole''] [])
     \<and> Statement \<lparr>resources = [codeBucketArn props @ lit ''/'' @ codeFileKey props],
                   actions = [''s3:GetObjectVersion'', ''s3:GetObject'']\<rparr>
          \<in> set (role_policy_set this ''AppRole'')
     \<and> resolve_string env (codeBucketArn props @ lit ''/'' @ codeFileKey props)
          = resolve_string env (codeBucketArn props) @ ''/'' @ resolve_string env (codeFileKey props)
     \<and> codeBucketArn props @ lit ''/'' @ codeFileKey props \<noteq> codeBucketArn props"
proof -
  have "child this ''CodePolicy''
           = Some (iam_Policy
               [\<lparr>resources = [codeBucketArn props @ lit ''/'' @ codeFileKey props],
                 actions = [''s3:GetObjectVersion'', ''s3:GetObject'']\<rparr>] [''AppRole''] [])"
    using assms by (auto simp: constructor_defs outcome_iffs child_def split: if_splits)
  moreover have "Statement \<lparr>resources = [codeBucketArn props @ lit ''/'' @ codeFileKey props],
                   actions = [''s3:GetObjectVersion'', ''s3:GetObject'']\<rparr>
          \<in> set (role_policy_set this ''AppRole'')"
    unfolding role_policy_set_built [OF assms] by simp
  moreover have "resolve_string env (codeBucketArn props @ lit ''/'' @ codeFileKey props)
          = resolve_string env (codeBucketArn props) @ ''/'' @ resolve_string env (codeFileKey props)"
    by (simp only: resolve_string_append resolve_string_lit)
  moreover have "codeBucketArn props @ lit ''/'' @ codeFileKey props \<noteq> codeBucketArn props"
    by (simp add: lit_def)
  ultimately show ?thesis by (intro conjI)
qed

theorem code_artifact_grant_witness:
  "\<exists>this. FlinkApplication_constructor never_fails [] ''KdaApplication'' sample = Inr this
     \<and> statements_of (child this ''CodePolicy'')
         = [\<lparr>resources = [[Text ''arn:aws:s3:::code'', Text ''/'', Text ''app.zip'']],
             actions = [''s3:GetObjectVersion'', ''s3:GetObject'']\<rparr>]
     \<and> resolve_string (\<lambda>k. []) (codeBucketArn sample @ lit ''/'' @ codeFileKey sample)
         = ''arn:aws:s3:::code/app.zip''"
proof -
  obtain this where built: "FlinkApplication_constructor never_fails [] ''KdaApplication'' sample = Inr this"
    using sample_returns by blast
  from code_artifact_grant [OF built, of "\<lambda>k. []"] show ?thesis
    using built by (simp add: sample_def lit_def resolve_string_def)
qed

section \<open>One application identifier\<close>

text \<open>
  C10. After a successful construction the getter \<open>ApplicationName\<close> has a value, and the
  same value is the application name of the logging option, the last part of the resource
  pattern of the callback role's policy, and the \<open>ApplicationName\<close> of the network
  attachment request.
\<close>

theorem application_name_consistent:
  assumes "FlinkApplication_constructor lib scope id' props = Inr this"
  shows "\<exists>app. ApplicationName this = Some app
     \<and> logging_applicationName (child this ''Logging'') = Some app
     \<and> map_option (map resources \<circ> snd) (inline_policy (child this ''CustomResourceRole''))
         = Some [[lit ''arn:'' @ Aws_PARTITION @ lit '':kinesisanalytics:'' @ Aws_REGION
                   @ lit '':'' @ Aws_ACCOUNT_ID @ lit '':application/'' @ app]]
     \<and> (\<exists>ps. custom_properties (child this ''VpcConfiguration'') = Some ps
          \<and> map_of ps ''ApplicationName'' = Some (StringValue app))"
  using assms
  by (auto simp: constructor_defs outcome_iffs child_def split: if_splits)

theorem application_name_consistent_witness:
  "\<exists>this. FlinkApplication_constructor never_fails [] ''KdaApplication'' sample = Inr this
     \<and> ApplicationName this = Some [Tok (Ref ''Application'')]
     \<and> logging_applicationName (child this ''Logging'') = Some [Tok (Ref ''Application'')]
     \<and> map_option (\<lambda>ps. map_of ps ''ApplicationName'')
          (custom_properties (child this ''VpcConfiguration''))
         = Some (Some (StringValue [Tok (Ref ''Application'')]))"
proof -
  obtain this where built: "FlinkApplication_constructor never_fails [] ''KdaApplication'' sample = Inr this"
    using sample_returns by blast
  from application_name_consistent [OF built] constructor_returns(3) [OF built] show ?thesis
    using built by (auto simp: ApplicationName_def ref_def)
qed

end
